theory Spec2Isabelle
  imports Main "HOL-Library.Word" "HOL-Library.AList"
begin

unbundle bit_operations_syntax

section \<open>JavaScript strings\<close>

text \<open>
  A JavaScript string is a sequence of 16-bit code units; a \<open>Uint8Array\<close> is a
  sequence of bytes. \<open>js\<close> writes an ASCII literal of the source as such a string.
\<close>

type_synonym jschar = "16 word"
type_synonym jsstring = "jschar list"
type_synonym byte = "8 word"

definition js :: "string \<Rightarrow> jsstring" where
  "js s = map of_char s"

section \<open>String and array methods of the platform\<close>

text \<open>
  The white space of ECMAScript (WhiteSpace and LineTerminator): what \<open>\s\<close> matches in
  a regular expression, and what \<open>String.prototype.trim\<close> strips.
\<close>

definition isWhiteSpace :: "jschar \<Rightarrow> bool" where
  "isWhiteSpace c \<longleftrightarrow>
     c = 0x9 \<or> c = 0xA \<or> c = 0xB \<or> c = 0xC \<or> c = 0xD \<or> c = 0x20 \<or> c = 0xA0
     \<or> c = 0x1680 \<or> (0x2000 \<le> c \<and> c \<le> 0x200A) \<or> c = 0x2028 \<or> c = 0x2029
     \<or> c = 0x202F \<or> c = 0x205F \<or> c = 0x3000 \<or> c = 0xFEFF"

text \<open>\<open>arr.join(sep)\<close> on an array of strings.\<close>

fun array_join :: "jsstring \<Rightarrow> jsstring list \<Rightarrow> jsstring" where
  "array_join sep [] = []"
| "array_join sep [x] = x"
| "array_join sep (x # y # ys) = x @ sep @ array_join sep (y # ys)"

text \<open>
  \<open>s.split(sep)\<close> for a separator of one character: the segments between the
  separators, empty ones included; the empty string gives one empty segment.
\<close>

fun split_from :: "jschar \<Rightarrow> jsstring \<Rightarrow> jsstring \<Rightarrow> jsstring list" where
  "split_from sep seg [] = [seg]"
| "split_from sep seg (c # cs) =
     (if c = sep then seg # split_from sep [] cs else split_from sep (seg @ [c]) cs)"

definition str_split :: "jschar \<Rightarrow> jsstring \<Rightarrow> jsstring list" where
  "str_split sep s = split_from sep [] s"

definition str_trim :: "jsstring \<Rightarrow> jsstring" where
  "str_trim s = rev (dropWhile isWhiteSpace (rev (dropWhile isWhiteSpace s)))"

text \<open>\<open>arr.indexOf(x)\<close>: the first index holding \<open>x\<close>, or -1.\<close>

fun indexOfFrom :: "'a list \<Rightarrow> 'a \<Rightarrow> nat \<Rightarrow> int" where
  "indexOfFrom [] x k = -1"
| "indexOfFrom (y # ys) x k = (if y = x then int k else indexOfFrom ys x (Suc k))"

definition indexOf :: "'a list \<Rightarrow> 'a \<Rightarrow> int" where
  "indexOf arr x = indexOfFrom arr x 0"

section \<open>getUniqueScopes\<close>

text \<open>
  \<^verbatim>\<open>const dedupe = arr => arr.filter((x, i) => arr.indexOf(x) === i);\<close>
\<close>

definition dedupe :: "'a list \<Rightarrow> 'a list" where
  "dedupe arr = map fst (filter (\<lambda>(x, i). indexOf arr x = int i) (zip arr [0..<length arr]))"

text \<open>
  \<^verbatim>\<open>const scopeString = scopes.filter(Boolean).join();
  return dedupe(scopeString.replace(/\s/g, ',').split(',')).join(' ').trim();\<close>
  The arguments are strings (\<open>...scopes: string[]\<close>), so \<open>filter(Boolean)\<close> drops
  the empty ones; \<open>join()\<close> separates with a comma (code unit 0x2C).
\<close>

definition getUniqueScopes :: "jsstring list \<Rightarrow> jsstring" where
  "getUniqueScopes scopes =
     (let scopeString = array_join (js '','') (filter (\<lambda>s. s \<noteq> []) scopes)
      in str_trim (array_join (js '' '')
           (dedupe (str_split 0x2C (map (\<lambda>c. if isWhiteSpace c then 0x2C else c) scopeString)))))"






section \<open>Values, objects and errors\<close>

text \<open>
  JavaScript values. \<open>Num n\<close> is the Number with the integer value \<open>n\<close>; an object is
  the list of its own properties in the order of their creation; \<open>Ref i\<close> is a reference
  to the host object \<open>i\<close> (a window, an element, an abort signal).
\<close>

datatype jsval = Undefined | Null | Bool bool | Num int | NaN | Str jsstring
  | Obj "(jsstring \<times> jsval) list" | Ref nat

type_synonym jsobject = "(jsstring \<times> jsval) list"

text \<open>
  The exceptions of the code, as values; a function that can throw returns
  \<open>jserror + 'a\<close> with \<open>Inl\<close> the exception. \<open>Error v ps\<close> is the object made by
  \<open>new Error(v)\<close> and then given the own properties \<open>ps\<close>. Every exception is an
  object, hence truthy.
\<close>

datatype jserror = TypeError | URIError | InvalidCharacterError | SyntaxError
  | Error jsval jsobject

text \<open>
  Truthiness (\<open>ToBoolean\<close>), and reading a property of a value, for the keys the code
  reads (\<open>type\<close>, \<open>response\<close>, \<open>error\<close>, \<open>error_description\<close>, \<open>json\<close>, \<open>ok\<close>): none
  of them is a property of a prototype, so a primitive has none of them.
\<close>

fun truthy :: "jsval \<Rightarrow> bool" where
  "truthy Undefined = False"
| "truthy Null = False"
| "truthy (Bool b) = b"
| "truthy (Num n) = (n \<noteq> 0)"
| "truthy NaN = False"
| "truthy (Str s) = (s \<noteq> [])"
| "truthy (Obj ps) = True"
| "truthy (Ref i) = True"

fun get_prop :: "jsval \<Rightarrow> jsstring \<Rightarrow> jserror + jsval" where
  "get_prop Undefined k = Inl TypeError"
| "get_prop Null k = Inl TypeError"
| "get_prop (Obj ps) k = Inr (case map_of ps k of Some v \<Rightarrow> v | None \<Rightarrow> Undefined)"
| "get_prop v k = Inr Undefined"

section \<open>decodeURIComponent and parseInt\<close>









section \<open>parseQueryResult\<close>









section \<open>The page: timers, message listeners, promises\<close>


definition CLEANUP_IFRAME_TIMEOUT_IN_SECONDS :: nat where
  "CLEANUP_IFRAME_TIMEOUT_IN_SECONDS = 2"

text \<open>
  \<^verbatim>\<open>const TIMEOUT_ERROR = { error: 'timeout', error_description: 'Timeout' };\<close>
\<close>

definition TIMEOUT_ERROR :: jsobject where
  "TIMEOUT_ERROR = [(js ''error'', Str (js ''timeout'')), (js ''error_description'', Str (js ''Timeout''))]"

text \<open>
  The code runs on one thread: it registers callbacks, and the page later calls them one
  at a time. A closure is the name of its function with the variables it has captured:
  \<^item> \<open>IframeTimeout p iframe\<close>: the timeout callback of \<open>runIframe\<close>, for the promise
    \<open>p\<close> and the element \<open>iframe\<close>;
  \<^item> \<open>RemoveIframe iframe\<close>: \<open>removeIframe\<close>, given to \<open>setTimeout\<close> after a result;
  \<^item> \<open>PopupTimeout p popup\<close>: the timeout callback of \<open>runPopup\<close>;
  \<^item> \<open>IframeEventHandler eventOrigin timeoutSetTimeoutId p iframe\<close> and
    \<open>PopupEventHandler timeoutId popup p\<close>: the two message listeners.
  Timers, listeners, elements, windows and promises are named by numbers; \<open>next_id\<close>
  is the next unused one.
\<close>

datatype settle = Pending | Fulfilled jsval | Rejected jsval

datatype callback =
    IframeTimeout nat nat
  | RemoveIframe nat
  | PopupTimeout nat nat

datatype handler =
    IframeEventHandler jsstring nat nat nat
  | PopupEventHandler nat nat nat

record message_event =
  origin :: jsstring
  data :: jsval
  source :: "nat option"

text \<open>
  The state of the page: the message listeners of \<open>window\<close> in the order of their
  registration, the pending timers (identifier, delay in milliseconds, callback), the
  children of \<open>document.body\<close>, the \<open>src\<close> of the iframes and the \<open>location.href\<close> of the
  popups, the state of the promises, the windows that have been closed, and the
  exceptions that left a listener uncaught.
\<close>

record browser =
  listeners :: "(nat \<times> handler) list"
  timers :: "(nat \<times> nat \<times> callback) list"
  body :: "nat list"
  src :: "(nat \<times> jsstring) list"
  href :: "(nat \<times> jsstring) list"
  promises :: "(nat \<times> settle) list"
  closed :: "nat list"
  uncaught :: "jserror list"
  next_id :: nat

text \<open>Calling \<open>res\<close> or \<open>rej\<close> of a promise: only the first call settles it.\<close>

definition settle_promise :: "nat \<Rightarrow> settle \<Rightarrow> browser \<Rightarrow> browser" where
  "settle_promise p s w =
     (if map_of (promises w) p = Some Pending
      then w\<lparr>promises := AList.update p s (promises w)\<rparr> else w)"

definition setTimeout :: "callback \<Rightarrow> nat \<Rightarrow> browser \<Rightarrow> nat \<times> browser" where
  "setTimeout cb delay w =
     (next_id w, w\<lparr>timers := timers w @ [(next_id w, delay, cb)], next_id := Suc (next_id w)\<rparr>)"

definition clearTimeout :: "nat \<Rightarrow> browser \<Rightarrow> browser" where
  "clearTimeout t w = w\<lparr>timers := filter (\<lambda>(i, _). i \<noteq> t) (timers w)\<rparr>"

definition addEventListener :: "handler \<Rightarrow> browser \<Rightarrow> nat \<times> browser" where
  "addEventListener h w =
     (next_id w, w\<lparr>listeners := listeners w @ [(next_id w, h)], next_id := Suc (next_id w)\<rparr>)"

definition removeEventListener :: "nat \<Rightarrow> browser \<Rightarrow> browser" where
  "removeEventListener l w = w\<lparr>listeners := filter (\<lambda>(i, _). i \<noteq> l) (listeners w)\<rparr>"

text \<open>
  \<^verbatim>\<open>const removeIframe = () => {
    if (window.document.body.contains(iframe)) window.document.body.removeChild(iframe);
  };\<close>
\<close>

definition removeIframe :: "nat \<Rightarrow> browser \<Rightarrow> browser" where
  "removeIframe iframe w =
     (if iframe \<in> set (body w) then w\<lparr>body := remove1 iframe (body w)\<rparr> else w)"

definition close_window :: "nat \<Rightarrow> browser \<Rightarrow> browser" where
  "close_window win w = w\<lparr>closed := closed w @ [win]\<rparr>"

section \<open>runIframe and runPopup\<close>

text \<open>
  The test both listeners make on the payload of a message:
  \<^verbatim>\<open>if (!e.data || e.data.type !== 'authorization_response') return;\<close>
\<close>

definition authorization_response :: "jsval \<Rightarrow> bool" where
  "authorization_response d \<longleftrightarrow>
     truthy d \<and> get_prop d (js ''type'') = Inr (Str (js ''authorization_response''))"

text \<open>
  \<open>iframeEventHandler\<close> of \<open>runIframe\<close>; \<open>self\<close> is the listener's own identifier,
  which it hands to \<open>removeEventListener\<close>. Reading \<open>e.data.response.error\<close> throws a
  \<open>TypeError\<close> when \<open>response\<close> is \<open>undefined\<close> or \<open>null\<close>: the rest of the listener is then
  not run, and the exception is reported by the page.
\<close>

definition iframeEventHandler ::
  "nat \<Rightarrow> jsstring \<Rightarrow> nat \<Rightarrow> nat \<Rightarrow> nat \<Rightarrow> message_event \<Rightarrow> browser \<Rightarrow> browser" where
  "iframeEventHandler self eventOrigin timeoutSetTimeoutId p iframe e w =
     (if origin e \<noteq> eventOrigin then w
      else if \<not> authorization_response (data e) then w
      else
        (let w1 = (case source e of Some eventSource \<Rightarrow> close_window eventSource w | None \<Rightarrow> w)
         in case get_prop (data e) (js ''response'') of
              Inl err \<Rightarrow> w1\<lparr>uncaught := uncaught w1 @ [err]\<rparr>
            | Inr response \<Rightarrow>
                (case get_prop response (js ''error'') of
                   Inl err \<Rightarrow> w1\<lparr>uncaught := uncaught w1 @ [err]\<rparr>
                 | Inr error \<Rightarrow>
                     (let w2 = settle_promise p
                                 (if truthy error then Rejected response else Fulfilled response) w1;
                          w3 = clearTimeout timeoutSetTimeoutId w2;
                          w4 = removeEventListener self w3
                      in snd (setTimeout (RemoveIframe iframe)
                                (CLEANUP_IFRAME_TIMEOUT_IN_SECONDS * 1000) w4)))))"

text \<open>The listener of \<open>runPopup\<close>: no test of the origin, and no \<open>removeEventListener\<close>.\<close>

definition popupEventHandler ::
  "nat \<Rightarrow> nat \<Rightarrow> nat \<Rightarrow> message_event \<Rightarrow> browser \<Rightarrow> browser" where
  "popupEventHandler timeoutId popup p e w =
     (if \<not> authorization_response (data e) then w
      else
        (let w1 = clearTimeout timeoutId w;
             w2 = close_window popup w1
         in case get_prop (data e) (js ''response'') of
              Inl err \<Rightarrow> w2\<lparr>uncaught := uncaught w2 @ [err]\<rparr>
            | Inr response \<Rightarrow>
                (case get_prop response (js ''error'') of
                   Inl err \<Rightarrow> w2\<lparr>uncaught := uncaught w2 @ [err]\<rparr>
                 | Inr error \<Rightarrow>
                     settle_promise p
                       (if truthy error then Rejected response else Fulfilled response) w2)))"

fun run_handler :: "nat \<times> handler \<Rightarrow> message_event \<Rightarrow> browser \<Rightarrow> browser" where
  "run_handler (self, IframeEventHandler eventOrigin t p iframe) e w =
     iframeEventHandler self eventOrigin t p iframe e w"
| "run_handler (self, PopupEventHandler t popup p) e w = popupEventHandler t popup p e w"

text \<open>
  The timeout callbacks:
  \<^verbatim>\<open>rej(TIMEOUT_ERROR); removeIframe();\<close> in \<open>runIframe\<close> and
  \<^verbatim>\<open>reject({ ...TIMEOUT_ERROR, popup });\<close> in \<open>runPopup\<close>.
\<close>

fun run_callback :: "callback \<Rightarrow> browser \<Rightarrow> browser" where
  "run_callback (IframeTimeout p iframe) w =
     removeIframe iframe (settle_promise p (Rejected (Obj TIMEOUT_ERROR)) w)"
| "run_callback (RemoveIframe iframe) w = removeIframe iframe w"
| "run_callback (PopupTimeout p popup) w =
     settle_promise p (Rejected (Obj (AList.update (js ''popup'') (Ref popup) TIMEOUT_ERROR))) w"

text \<open>
  What the page does: a pending timer fires (it is no longer pending, and its callback
  runs), or a message is dispatched to the listeners registered at that moment, in order,
  skipping one that an earlier listener has removed.
\<close>

datatype event = TimerFires nat | Message message_event

fun step :: "event \<Rightarrow> browser \<Rightarrow> browser" where
  "step (TimerFires t) w =
     (case map_of (timers w) t of
        None \<Rightarrow> w
      | Some (delay, cb) \<Rightarrow> run_callback cb (clearTimeout t w))"
| "step (Message e) w =
     foldl (\<lambda>w' l. if l \<in> set (listeners w') then run_handler l e w' else w') w (listeners w)"

definition run :: "event list \<Rightarrow> browser \<Rightarrow> browser" where
  "run evs w = foldl (\<lambda>w' ev. step ev w') w evs"

text \<open>
  \<open>runIframe\<close>, up to the return of the promise: the promise and the iframe are created,
  the timeout is armed, the listener is registered, the iframe is appended to the body
  and its \<open>src\<close> is set. (The attributes that hide the iframe are left out.) The result is
  the promise.
\<close>

definition runIframe :: "jsstring \<Rightarrow> jsstring \<Rightarrow> nat \<Rightarrow> browser \<Rightarrow> nat \<times> browser" where
  "runIframe authorizeUrl eventOrigin timeoutInSeconds w =
     (let p = next_id w;
          iframe = Suc p;
          w1 = w\<lparr>promises := AList.update p Pending (promises w), next_id := Suc iframe\<rparr>;
          (timeoutSetTimeoutId, w2) = setTimeout (IframeTimeout p iframe) (timeoutInSeconds * 1000) w1;
          (self, w3) = addEventListener
                         (IframeEventHandler eventOrigin timeoutSetTimeoutId p iframe) w2;
          w4 = w3\<lparr>body := body w3 @ [iframe]\<rparr>
      in (p, w4\<lparr>src := AList.update iframe authorizeUrl (src w4)\<rparr>))"

text \<open>
  \<open>runPopup\<close>: \<open>opened\<close> is what \<open>window.open\<close> returns when it is called (\<open>None\<close> when the
  browser blocks the popup). Without a popup the call throws before the promise exists.
  \<open>config.timeoutInSeconds || DEFAULT_AUTHORIZE_TIMEOUT_IN_SECONDS\<close> takes the default for
  \<open>undefined\<close> and for 0.
\<close>

record popup_config =
  popup :: "nat option"
  timeoutInSeconds :: "nat option"


text \<open>
  A page with nothing registered, and a message of the contract
  \<open>{type: 'authorization_response', response: ...}\<close>.
\<close>

definition empty_browser :: browser where
  "empty_browser = \<lparr>listeners = [], timers = [], body = [], src = [], href = [], promises = [],
     closed = [], uncaught = [], next_id = 0\<rparr>"

definition auth_message :: "jsstring \<Rightarrow> jsval \<Rightarrow> nat option \<Rightarrow> message_event" where
  "auth_message orig response win =
     \<lparr>origin = orig,
      data = Obj [(js ''type'', Str (js ''authorization_response'')), (js ''response'', response)],
      source = win\<rparr>"


section \<open>createRandomString\<close>

text \<open>
  \<^verbatim>\<open>const charset = '0123456789ABCDEFGHIJKLMNOPQRSTUVWXYZabcdefghijklmnopqrstuvwxyz-_~.';\<close>
\<close>

definition charset :: jsstring where
  "charset = js ''0123456789ABCDEFGHIJKLMNOPQRSTUVWXYZabcdefghijklmnopqrstuvwxyz-_~.''"

text \<open>
  \<open>randomValues\<close> is the content of the \<open>Uint8Array(43)\<close> after
  \<open>getRandomValues\<close> has filled it; \<open>forEach\<close> appends one character per
  byte to \<open>random\<close>, which starts empty.
\<close>

definition createRandomString :: "byte list \<Rightarrow> jsstring" where
  "createRandomString randomValues =
     foldl (\<lambda>random v. random @ [charset ! (unat v mod length charset)]) [] randomValues"


section \<open>The token exchange: fetchWithTimeout and getJSON\<close>

text \<open>
  Modelled from the spec: the constants of \<open>./constants\<close>, which is not under
  \<open>src/\<close> (the specification gives 3 attempts and about 10 seconds).
\<close>

definition DEFAULT_SILENT_TOKEN_RETRY_COUNT :: nat where
  "DEFAULT_SILENT_TOKEN_RETRY_COUNT = 3"

definition DEFAULT_FETCH_TIMEOUT_MS :: nat where
  "DEFAULT_FETCH_TIMEOUT_MS = 10000"

text \<open>
  What the token exchange can change or show: the objects it can reach, by address (the
  caller's options object is one of them); the calls of \<open>fetch\<close> (the URL and the
  properties of the options object at the call); the messages posted to a worker (the
  worker and the properties of the message, which \<open>postMessage\<close> clones); the timers
  armed (the abort controller of the attempt and the delay) and the controllers aborted.
\<close>

record net =
  heap :: "(nat \<times> jsobject) list"
  next_addr :: nat
  fetched :: "(jsstring \<times> jsobject) list"
  posted :: "(nat \<times> jsobject) list"
  fetch_timers :: "(nat \<times> nat) list"
  aborted :: "nat list"

text \<open>
  What the outside does with one attempt before its timer fires: \<open>fetch\<close> rejects, or it
  resolves with a response whose \<open>ok\<close> flag is given and whose \<open>json()\<close> rejects or
  resolves with the parsed body; or the worker replies with \<open>event.data\<close>; or nothing
  arrives in time.
\<close>

datatype fetch_result = NetworkFailure jserror | HttpResponse bool "jserror + jsval"

datatype outcome = Fetch fetch_result | Reply jsval | Late

text \<open>
  \<open>{...obj, ...ps}\<close>: the properties of \<open>ps\<close> are written over \<open>obj\<close> in order; and the
  own properties of the object a reference points to (none for \<open>undefined\<close>).
\<close>

definition spread :: "jsobject \<Rightarrow> jsobject \<Rightarrow> jsobject" where
  "spread obj ps = foldl (\<lambda>acc (k, v). AList.update k v acc) obj ps"

definition props :: "net \<Rightarrow> nat option \<Rightarrow> jsobject" where
  "props st ref = (case ref of None \<Rightarrow> [] | Some a \<Rightarrow> (case map_of (heap st) a of None \<Rightarrow> [] | Some ps \<Rightarrow> ps))"

text \<open>
  \<open>port1.onmessage\<close> of \<open>sendMessage\<close>:
  \<^verbatim>\<open>if (event.data.error) reject(new Error(event.data.error)); else resolve(event.data);\<close>
  Reading \<open>event.data.error\<close> throws when \<open>event.data\<close> is \<open>undefined\<close> or \<open>null\<close>: the promise
  is then never settled by the message.
\<close>

definition onmessage :: "jsval \<Rightarrow> (jserror + jsval) option" where
  "onmessage d =
     (case get_prop d (js ''error'') of
        Inl e \<Rightarrow> None
      | Inr err \<Rightarrow> if truthy err then Some (Inl (Error err [])) else Some (Inr d))"

text \<open>
  \<open>switchFetch\<close>, up to its first \<open>await\<close>. With a worker, \<open>delete opts.signal\<close> changes
  the object \<open>opts\<close> points to, and the message \<open>{ url, timeout, ...opts }\<close> is posted;
  without one, \<open>fetch(url, opts)\<close> is called (\<open>unfetch\<close> reads its options and changes
  nothing).
\<close>

definition switchFetch :: "jsstring \<Rightarrow> nat \<Rightarrow> nat \<Rightarrow> nat option \<Rightarrow> net \<Rightarrow> net" where
  "switchFetch url opts timeout worker st =
     (case worker of
        Some wk \<Rightarrow>
          (let st1 = st\<lparr>heap := AList.update opts (AList.delete (js ''signal'') (props st (Some opts)))
                                   (heap st)\<rparr>
           in st1\<lparr>posted := posted st1 @
                  [(wk, spread [(js ''url'', Str url), (js ''timeout'', Num (int timeout))]
                          (props st1 (Some opts)))]\<rparr>)
      | None \<Rightarrow> st\<lparr>fetched := fetched st @ [(url, props st (Some opts))]\<rparr>)"

text \<open>
  What \<open>switchFetch\<close> settles with before the timer, if it does: without a worker, a
  rejection of \<open>fetch\<close> or of \<open>response.json()\<close> rejects, and a parsed body gives
  \<open>{ ok: response.ok, json: ... }\<close>; with a worker, the reply decides.
\<close>

definition settles :: "nat option \<Rightarrow> outcome \<Rightarrow> (jserror + jsval) option" where
  "settles worker out =
     (case (worker, out) of
        (None, Fetch (NetworkFailure e)) \<Rightarrow> Some (Inl e)
      | (None, Fetch (HttpResponse ok (Inl e))) \<Rightarrow> Some (Inl e)
      | (None, Fetch (HttpResponse ok (Inr json))) \<Rightarrow>
          Some (Inr (Obj [(js ''ok'', Bool ok), (js ''json'', json)]))
      | (Some wk, Reply d) \<Rightarrow> onmessage d
      | _ \<Rightarrow> None)"

text \<open>\<^verbatim>\<open>new Error("Timeout when executing 'fetch'")\<close> (0x27 is the apostrophe).\<close>

definition timeout_error :: jserror where
  "timeout_error = Error (Str (js ''Timeout when executing '' @ [0x27] @ js ''fetch'' @ [0x27])) []"

text \<open>
  \<open>fetchWithTimeout\<close>: the abort controller is created, \<open>fetchOptions = { ...options,
  signal }\<close> is a new object, \<open>switchFetch\<close> starts and the timer is armed. The race
  settles with the result of \<open>switchFetch\<close> when there is one before the timer, and
  otherwise the timer aborts the controller and rejects. The result is what the promise
  settles with (\<open>Inl\<close> a rejection) and the new state. \<open>timeout0\<close> is \<open>None\<close> for
  \<open>undefined\<close>, which takes the default.
\<close>

definition fetchWithTimeout ::
  "jsstring \<Rightarrow> nat option \<Rightarrow> nat option \<Rightarrow> nat option \<Rightarrow> outcome \<Rightarrow> net \<Rightarrow> (jserror + jsval) \<times> net" where
  "fetchWithTimeout url options worker timeout0 out st =
     (let timeout = (case timeout0 of None \<Rightarrow> DEFAULT_FETCH_TIMEOUT_MS | Some t \<Rightarrow> t);
          controller = next_addr st;
          fetchOptions = Suc controller;
          st1 = st\<lparr>heap := AList.update fetchOptions
                                (AList.update (js ''signal'') (Ref controller) (props st options))
                                (heap st),
                   next_addr := Suc fetchOptions\<rparr>;
          st2 = switchFetch url fetchOptions timeout worker st1;
          st3 = st2\<lparr>fetch_timers := fetch_timers st2 @ [(controller, timeout)]\<rparr>
      in case settles worker out of
           Some result \<Rightarrow> (result, st3)
         | None \<Rightarrow>
             (Inl timeout_error, st3\<lparr>aborted := aborted st3 @ [controller]\<rparr>))"

text \<open>
  The loop of \<open>getJSON\<close>, with \<open>n\<close> iterations left and \<open>i\<close> the loop counter; \<open>env i\<close> is
  what the outside does with attempt \<open>i\<close>. It returns the variables \<open>fetchError\<close> and
  \<open>response\<close> (\<open>None\<close> for one that is \<open>undefined\<close> or \<open>null\<close>):
  \<^verbatim>\<open>for (let i = 0; i < DEFAULT_SILENT_TOKEN_RETRY_COUNT; i++) {
    try { response = await fetchWithTimeout(url, options, worker, timeout);
          fetchError = null; break; }
    catch (e) { fetchError = e; }
  }\<close>
\<close>

fun attempts ::
  "nat \<Rightarrow> nat \<Rightarrow> jsstring \<Rightarrow> nat option \<Rightarrow> nat option \<Rightarrow> nat option \<Rightarrow> (nat \<Rightarrow> outcome)
     \<Rightarrow> jserror option \<Rightarrow> net \<Rightarrow> (jserror option \<times> jsval option) \<times> net" where
  "attempts 0 i url options worker timeout env fetchError st = ((fetchError, None), st)"
| "attempts (Suc n) i url options worker timeout env fetchError st =
     (case fetchWithTimeout url options worker timeout (env i) st of
        (Inr response, st') \<Rightarrow> ((None, Some response), st')
      | (Inl e, st') \<Rightarrow> attempts n (Suc i) url options worker timeout env (Some e) st')"

text \<open>
  \<open>...success\<close>: the own properties of the body but \<open>error\<close> and \<open>error_description\<close>.
  (A body that is a string or an array is outside this model of values.)
\<close>

definition rest_props :: "jsval \<Rightarrow> jsobject" where
  "rest_props json =
     (case json of
        Obj ps \<Rightarrow> filter (\<lambda>(k, v). k \<noteq> js ''error'' \<and> k \<noteq> js ''error_description'') ps
      | _ \<Rightarrow> [])"

text \<open>
  The rest of \<open>getJSON\<close>, after the loop and \<open>if (fetchError) throw fetchError\<close>:
  \<^verbatim>\<open>const { json: { error, error_description, ...success }, ok } = response;
  if (!ok) {
    const errorMessage = error_description || `HTTP error. Unable to fetch ${url}`;
    const e = <any>new Error(errorMessage);
    e.error = error || 'request_error';
    e.error_description = errorMessage;
    throw e;
  }
  return success;\<close>
  Destructuring \<open>undefined\<close> or \<open>null\<close> throws a \<open>TypeError\<close>.
\<close>

definition finish :: "jsstring \<Rightarrow> jsval option \<Rightarrow> jserror + jsobject" where
  "finish url response0 =
     (case response0 of
        None \<Rightarrow> Inl TypeError
      | Some response \<Rightarrow>
          (case get_prop response (js ''json'') of
             Inl e \<Rightarrow> Inl e
           | Inr json \<Rightarrow>
               (case get_prop json (js ''error'') of
                  Inl e \<Rightarrow> Inl e
                | Inr error \<Rightarrow>
                    (case get_prop json (js ''error_description'') of
                       Inl e \<Rightarrow> Inl e
                     | Inr error_description \<Rightarrow>
                         (case get_prop response (js ''ok'') of
                            Inl e \<Rightarrow> Inl e
                          | Inr ok \<Rightarrow>
                              if \<not> truthy ok then
                                (let errorMessage =
                                       (if truthy error_description then error_description
                                        else Str (js ''HTTP error. Unable to fetch '' @ url))
                                 in Inl (Error errorMessage
                                      [(js ''error'',
                                        if truthy error then error else Str (js ''request_error'')),
                                       (js ''error_description'', errorMessage)]))
                              else Inr (rest_props json))))))"

definition getJSON ::
  "jsstring \<Rightarrow> nat option \<Rightarrow> nat option \<Rightarrow> nat option \<Rightarrow> (nat \<Rightarrow> outcome) \<Rightarrow> net
     \<Rightarrow> (jserror + jsobject) \<times> net" where
  "getJSON url timeout options worker env st =
     (case attempts DEFAULT_SILENT_TOKEN_RETRY_COUNT 0 url options worker timeout env None st of
        ((Some fetchError, response), st') \<Rightarrow> (Inl fetchError, st')
      | ((None, response), st') \<Rightarrow> (finish url response, st'))"


definition after_attempts ::
  "nat \<Rightarrow> jsstring \<Rightarrow> nat option \<Rightarrow> nat option \<Rightarrow> nat option \<Rightarrow> (nat \<Rightarrow> outcome) \<Rightarrow> net \<Rightarrow> net" where
  "after_attempts m url options worker timeout env st =
     foldl (\<lambda>s i. snd (fetchWithTimeout url options worker timeout (env i) s)) st [0..<m]"


definition net_with_options :: net where
  "net_with_options =
     \<lparr>heap = [(0, [(js ''method'', Str (js ''POST'')), (js ''signal'', Ref 9)])], next_addr = 1,
      fetched = [], posted = [], fetch_timers = [], aborted = []\<rparr>"

section \<open>Proofs: getUniqueScopes\<close>

subsection \<open>dedupe keeps first occurrences\<close>

lemma indexOfFrom_notin: "x \<notin> set ys \<Longrightarrow> indexOfFrom ys x k = -1"
  by (induction ys arbitrary: k) auto













subsection \<open>Segments and tokens\<close>




























lemma getUniqueScopes_empty_segment:
  "getUniqueScopes [js ''a  b'', js '''', js '' b,c,,a d ''] = js ''a  b c d''"
  by (simp add: getUniqueScopes_def js_def isWhiteSpace_def dedupe_def indexOf_def str_trim_def
      str_split_def)

section \<open>Proofs: parseQueryResult\<close>


























section \<open>Proofs: runIframe and runPopup\<close>

lemma runIframe_state:
  "runIframe authorizeUrl eventOrigin secs w =
     (next_id w,
      w\<lparr>listeners := listeners w @
           [(next_id w + 3, IframeEventHandler eventOrigin (next_id w + 2) (next_id w) (next_id w + 1))],
        timers := timers w @
           [(next_id w + 2, secs * 1000, IframeTimeout (next_id w) (next_id w + 1))],
        body := body w @ [next_id w + 1],
        src := AList.update (next_id w + 1) authorizeUrl (src w),
        promises := AList.update (next_id w) Pending (promises w),
        next_id := next_id w + 4\<rparr>)"
  by (simp add: runIframe_def setTimeout_def addEventListener_def Let_def)


lemma iframe_handler_ignores:
  "origin e \<noteq> eventOrigin \<or> \<not> authorization_response (data e) \<Longrightarrow>
   iframeEventHandler self eventOrigin t p iframe e w = w"
  by (auto simp: iframeEventHandler_def)


lemma map_of_snoc_fresh:
  "k \<notin> fst ` set xs \<Longrightarrow> map_of (xs @ [(k, v)]) k = Some v"
  by (induction xs) auto




lemma filter_snoc_fresh:
  "k \<notin> fst ` set xs \<Longrightarrow> filter (\<lambda>(i, _). i \<noteq> k) (xs @ [(k, v)]) = xs"
  by (induction xs) auto





lemma step_message_single: "listeners w = [l] \<Longrightarrow> step (Message e) w = run_handler l e w"
  by simp

lemma step_message_none: "listeners w = [] \<Longrightarrow> step (Message e) w = w"
  by simp

lemma run_Nil: "run [] w = w"
  by (simp add: run_def)

lemma run_Cons: "run (ev # evs) w = run evs (step ev w)"
  by (simp add: run_def)


lemma run_ignored_iframe:
  assumes "listeners w = [(self, IframeEventHandler eventOrigin t p iframe)]"
    and "\<forall>e \<in> set es. origin e \<noteq> eventOrigin \<or> \<not> authorization_response (data e)"
  shows "run (map Message es) w = w"
  using assms
proof (induction es)
  case Nil
  then show ?case by (simp add: run_Nil)
next
  case (Cons e es)
  then have "origin e \<noteq> eventOrigin \<or> \<not> authorization_response (data e)" by simp
  then have "iframeEventHandler self eventOrigin t p iframe e w = w"
    by (rule iframe_handler_ignores)
  then have "step (Message e) w = w"
    using Cons.prems(1) by simp
  then show ?case using Cons by (simp add: run_Cons)
qed








text \<open>
  Claim C9. For every message whose origin differs from the expected origin, or whose
  payload is not tagged \<open>authorization_response\<close>, the listener of \<open>runIframe\<close> returns
  at once and changes nothing, whatever the state of the page. So, on a page with no
  other message listener, any sequence of such messages leaves the attempt as it was
  started: the promise pending, the iframe in the document, the listener attached, the
  timeout armed, and no exception reported.
\<close>

theorem runIframe_ignores_other_messages:
  assumes "runIframe authorizeUrl eventOrigin secs w = (p, w')"
    and "listeners w = []"
    and "\<forall>e \<in> set es. origin e \<noteq> eventOrigin \<or> \<not> authorization_response (data e)"
  shows "run (map Message es) w' = w'
     \<and> map_of (promises (run (map Message es) w')) p = Some Pending
     \<and> Suc p \<in> set (body (run (map Message es) w'))
     \<and> listeners (run (map Message es) w')
         = [(p + 3, IframeEventHandler eventOrigin (p + 2) p (Suc p))]
     \<and> (p + 2, secs * 1000, IframeTimeout p (Suc p)) \<in> set (timers (run (map Message es) w'))
     \<and> uncaught (run (map Message es) w') = uncaught w
     \<and> (\<forall>e \<in> set es. \<forall>self t q iframe w0.
           iframeEventHandler self eventOrigin t q iframe e w0 = w0)"
proof -
  from assms(1) have p: "p = next_id w" by (auto simp: runIframe_state)
  from assms(1) have w': "w' = snd (runIframe authorizeUrl eventOrigin secs w)" by simp
  have l: "listeners w' = [(p + 3, IframeEventHandler eventOrigin (p + 2) p (Suc p))]"
    using assms(2) by (simp add: w' p runIframe_state)
  have same: "run (map Message es) w' = w'"
    by (rule run_ignored_iframe [OF l assms(3)])
  have "map_of (promises w') p = Some Pending"
    by (simp add: w' p runIframe_state update_conv')
  moreover have "Suc p \<in> set (body w')" by (simp add: w' p runIframe_state)
  moreover have "(p + 2, secs * 1000, IframeTimeout p (Suc p)) \<in> set (timers w')"
    by (simp add: w' p runIframe_state)
  moreover have "uncaught w' = uncaught w" by (simp add: w' runIframe_state)
  moreover have "\<forall>e \<in> set es. \<forall>self t q iframe w0.
           iframeEventHandler self eventOrigin t q iframe e w0 = w0"
    using assms(3) iframe_handler_ignores by blast
  ultimately show ?thesis using same l by simp
qed


theorem runIframe_ignores_other_messages_witness:
  "run (map Message
          [auth_message (js ''https://evil.example'') (Obj [(js ''code'', Str (js ''c''))]) (Some 7),
           \<lparr>origin = js ''https://idp.example'', data = Obj [(js ''type'', Str (js ''ping''))],
            source = None\<rparr>,
           \<lparr>origin = js ''https://idp.example'', data = Null, source = None\<rparr>])
       (snd (runIframe (js ''https://idp.example/authorize'') (js ''https://idp.example'') 60
               empty_browser))
     = snd (runIframe (js ''https://idp.example/authorize'') (js ''https://idp.example'') 60
               empty_browser)
   \<and> map_of (promises (snd (runIframe (js ''https://idp.example/authorize'')
               (js ''https://idp.example'') 60 empty_browser))) 0 = Some Pending"
proof -
  let ?es = "[auth_message (js ''https://evil.example'') (Obj [(js ''code'', Str (js ''c''))]) (Some 7),
           \<lparr>origin = js ''https://idp.example'', data = Obj [(js ''type'', Str (js ''ping''))],
            source = None\<rparr>,
           \<lparr>origin = js ''https://idp.example'', data = Null, source = None\<rparr>]"
  let ?w' = "snd (runIframe (js ''https://idp.example/authorize'') (js ''https://idp.example'') 60
               empty_browser)"
  have a: "runIframe (js ''https://idp.example/authorize'') (js ''https://idp.example'') 60
             empty_browser = (0, ?w')"
    by (simp add: runIframe_state empty_browser_def)
  have b: "listeners empty_browser = []" by (simp add: empty_browser_def)
  have c: "\<forall>e \<in> set ?es. origin e \<noteq> js ''https://idp.example''
             \<or> \<not> authorization_response (data e)"
    by (simp add: auth_message_def authorization_response_def js_def)
  from runIframe_ignores_other_messages [OF a b c]
  have 1: "run (map Message ?es) ?w' = ?w'"
    and 2: "map_of (promises (run (map Message ?es) ?w')) 0 = Some Pending"
    by blast+
  from 2 have "map_of (promises ?w') 0 = Some Pending" by (simp only: 1)
  with 1 show ?thesis by (intro conjI)
qed











section \<open>Proofs: createRandomString\<close>

lemma foldl_snoc_map: "foldl (\<lambda>acc v. acc @ [f v]) acc0 xs = acc0 @ map f xs"
  by (induction xs arbitrary: acc0) simp_all

lemma length_charset: "length charset = 66"
  by (simp add: charset_def js_def)

lemma charset_alphabet:
  "charset = map of_nat ([48..<58] @ [65..<91] @ [97..<123] @ [45, 95, 126, 46])"
  by (simp add: charset_def js_def upt_rec)

lemma distinct_charset: "distinct charset"
  by (simp add: charset_def js_def)

text \<open>
  Claim C8. For every sequence of 43 random bytes, \<open>createRandomString\<close> returns exactly
  the string whose i-th character is the character of the alphabet at index (i-th byte
  modulo 66). The output has length 43 and every character of it belongs to the alphabet,
  which has 66 distinct characters: the digits (code units 48 to 57), the upper-case
  letters (65 to 90), the lower-case letters (97 to 122) and \<open>-_~.\<close>
\<close>

theorem createRandomString_spec:
  assumes "length randomValues = 43"
  shows "createRandomString randomValues = map (\<lambda>v. charset ! (unat v mod 66)) randomValues
       \<and> length (createRandomString randomValues) = 43
       \<and> set (createRandomString randomValues) \<subseteq> set charset
       \<and> length charset = 66 \<and> distinct charset
       \<and> charset = map of_nat ([48..<58] @ [65..<91] @ [97..<123] @ [45, 95, 126, 46])"
proof -
  have eq: "createRandomString randomValues = map (\<lambda>v. charset ! (unat v mod 66)) randomValues"
    by (simp add: createRandomString_def foldl_snoc_map length_charset)
  have sub: "set (map (\<lambda>v. charset ! (unat v mod 66)) randomValues) \<subseteq> set charset"
  proof
    fix c assume "c \<in> set (map (\<lambda>v. charset ! (unat v mod 66)) randomValues)"
    then obtain v :: byte where "c = charset ! (unat v mod 66)" by auto
    moreover have "unat v mod 66 < length charset" by (simp add: length_charset)
    ultimately show "c \<in> set charset" using nth_mem by blast
  qed
  show ?thesis using eq sub assms length_charset distinct_charset charset_alphabet by simp
qed

theorem createRandomString_witness:
  "length [255, 0, 66, 65, 159, 196, 233, 14, 51, 88, 125, 162, 199, 236, 17, 54, 91, 128,
      165, 202, 239, 20, 57, 94, 131, 168, 205, 242, 23, 60, 97, 134, 171, 208, 245, 26, 63,
      100, 137, 174, 211, 248, 29 :: byte] = 43
   \<and> createRandomString [255, 0, 66, 65, 159, 196, 233, 14, 51, 88, 125, 162, 199, 236, 17,
      54, 91, 128, 165, 202, 239, 20, 57, 94, 131, 168, 205, 242, 23, 60, 97, 134, 171, 208,
      245, 26, 63, 100, 137, 174, 211, 248, 29]
     = js ''v00.R~ZEpMxU1cHsP-X4fKvS.a7iNyV2dAlQ_Y5gDoT''"
  using createRandomString_spec [of "[255, 0, 66, 65, 159, 196, 233, 14, 51, 88, 125, 162,
      199, 236, 17, 54, 91, 128, 165, 202, 239, 20, 57, 94, 131, 168, 205, 242, 23, 60, 97,
      134, 171, 208, 245, 26, 63, 100, 137, 174, 211, 248, 29]"]
  by (simp add: charset_def js_def)

section \<open>Proofs: fetchWithTimeout and getJSON\<close>



lemma fetchWithTimeout_next_addr:
  "next_addr (snd (fetchWithTimeout url options worker timeout out st)) = next_addr st + 2"
  by (simp add: fetchWithTimeout_def switchFetch_def Let_def split: option.splits)

lemma fetchWithTimeout_heap:
  "a < next_addr st \<Longrightarrow>
   map_of (heap (snd (fetchWithTimeout url options worker timeout out st))) a = map_of (heap st) a"
  by (simp add: fetchWithTimeout_def switchFetch_def Let_def update_conv' split: option.splits)





lemma after_attempts_next_addr:
  "next_addr (after_attempts m url options worker timeout env st) = next_addr st + 2 * m"
  by (induction m) (simp_all add: after_attempts_def fetchWithTimeout_next_addr)

lemma after_attempts_heap:
  "a < next_addr st \<Longrightarrow>
   map_of (heap (after_attempts m url options worker timeout env st)) a = map_of (heap st) a"
proof (induction m)
  case 0
  then show ?case by (simp add: after_attempts_def)
next
  case (Suc m)
  let ?s = "after_attempts m url options worker timeout env st"
  have "a < next_addr ?s" using Suc.prems by (simp add: after_attempts_next_addr)
  then have "map_of (heap (snd (fetchWithTimeout url options worker timeout (env m) ?s))) a
             = map_of (heap ?s) a"
    by (rule fetchWithTimeout_heap)
  then show ?case using Suc by (simp add: after_attempts_def)
qed






lemma all_less_3: "(\<forall>i < (3 :: nat). P i) \<longleftrightarrow> P 0 \<and> P 1 \<and> P 2"
proof -
  have "\<And>i :: nat. i < 3 \<longleftrightarrow> i = 0 \<or> i = 1 \<or> i = 2" by auto
  then show ?thesis by auto
qed









lemma update_key_set: "fst ` set (AList.update k v obj) = insert k (fst ` set obj)"
  by (induction obj) auto

lemma spread_keys: "fst ` set (spread obj ps) = fst ` set obj \<union> fst ` set ps"
proof -
  have "fst ` set (foldl (\<lambda>acc (k, v). AList.update k v acc) obj ps)
        = fst ` set obj \<union> fst ` set ps"
  proof (induction ps arbitrary: obj)
    case Nil
    then show ?case by simp
  next
    case (Cons x xs)
    obtain k v where x: "x = (k, v)" by (cases x)
    have "fst ` set (AList.update k v obj) = insert k (fst ` set obj)"
      by (rule update_key_set)
    then show ?case using Cons [of "AList.update k v obj"] x by auto
  qed
  then show ?thesis by (simp add: spread_def)
qed

lemma delete_keys: "fst ` set (AList.delete k ps) = fst ` set ps - {k}"
  by (induction ps) auto

lemma attempts_heap:
  "a < next_addr st \<Longrightarrow>
   map_of (heap (snd (attempts n i url options worker timeout env fetchError st))) a
   = map_of (heap st) a"
proof (induction n arbitrary: i fetchError st)
  case 0
  then show ?case by simp
next
  case (Suc n)
  define r where "r = fst (fetchWithTimeout url options worker timeout (env i) st)"
  define st' where "st' = snd (fetchWithTimeout url options worker timeout (env i) st)"
  have f: "fetchWithTimeout url options worker timeout (env i) st = (r, st')"
    by (simp add: r_def st'_def)
  have h: "map_of (heap st') a = map_of (heap st) a"
    unfolding st'_def by (rule fetchWithTimeout_heap [OF Suc.prems])
  have lt: "a < next_addr st'"
    using Suc.prems by (simp add: st'_def fetchWithTimeout_next_addr)
  show ?case
  proof (cases r)
    case (Inl e)
    then have "attempts (Suc n) i url options worker timeout env fetchError st
               = attempts n (Suc i) url options worker timeout env (Some e) st'"
      by (simp add: f)
    then show ?thesis using Suc.IH [OF lt] h by simp
  next
    case (Inr response)
    then have "attempts (Suc n) i url options worker timeout env fetchError st
               = ((None, Some response), st')"
      by (simp add: f)
    then show ?thesis using h by simp
  qed
qed

lemma getJSON_heap:
  "a < next_addr st \<Longrightarrow>
   map_of (heap (snd (getJSON url timeout options worker env st))) a = map_of (heap st) a"
proof -
  assume a: "a < next_addr st"
  define r where
    "r = attempts DEFAULT_SILENT_TOKEN_RETRY_COUNT 0 url options worker timeout env None st"
  have "snd (getJSON url timeout options worker env st) = snd r"
    by (simp add: getJSON_def r_def [symmetric] split: prod.splits option.splits)
  then show ?thesis using attempts_heap [OF a] by (simp add: r_def)
qed

text \<open>
  Claim C10. \<open>fetchWithTimeout\<close> never changes the caller's options object, nor any
  object that exists before the call: it works on a new object, at the address after the
  abort controller's. With a worker, \<open>signal\<close> is deleted from that copy and the posted
  message has no \<open>signal\<close>; without one, the copy holds the new signal. The caller's
  object has the properties it had before (a \<open>signal\<close> of its own included), also after
  all the attempts of \<open>getJSON\<close>.
\<close>

theorem fetchWithTimeout_keeps_options:
  assumes "a < next_addr st"
  shows "map_of (heap (snd (fetchWithTimeout url (Some a) worker timeout out st))) a
           = map_of (heap st) a
       \<and> props (snd (fetchWithTimeout url (Some a) worker timeout out st)) (Some a)
           = props st (Some a)
       \<and> map_of (heap (snd (fetchWithTimeout url options worker timeout out st))) a
           = map_of (heap st) a
       \<and> (\<exists>msg. posted (snd (fetchWithTimeout url (Some a) (Some wk) timeout out st))
                   = posted st @ [(wk, msg)]
                 \<and> js ''signal'' \<notin> fst ` set msg)
       \<and> map_of (heap (snd (fetchWithTimeout url (Some a) (Some wk) timeout out st)))
             (Suc (next_addr st))
           = Some (AList.delete (js ''signal'') (props st (Some a)))
       \<and> map_of (heap (snd (fetchWithTimeout url (Some a) None timeout out st)))
             (Suc (next_addr st))
           = Some (AList.update (js ''signal'') (Ref (next_addr st)) (props st (Some a)))
       \<and> map_of (heap (snd (getJSON url timeout (Some a) worker env st))) a = map_of (heap st) a"
proof (intro conjI)
  show h: "map_of (heap (snd (fetchWithTimeout url (Some a) worker timeout out st))) a
           = map_of (heap st) a"
    by (rule fetchWithTimeout_heap [OF assms])
  show "props (snd (fetchWithTimeout url (Some a) worker timeout out st)) (Some a)
           = props st (Some a)"
    by (simp add: props_def h)
  show "map_of (heap (snd (fetchWithTimeout url options worker timeout out st))) a
           = map_of (heap st) a"
    by (rule fetchWithTimeout_heap [OF assms])
  have ne: "js ''signal'' \<noteq> js ''url''" "js ''signal'' \<noteq> js ''timeout''" by (simp_all add: js_def)
  have "js ''signal'' \<notin> fst ` set (spread [(js ''url'', Str url), (js ''timeout'', Num (int t))]
           (AList.delete (js ''signal'') ps))" for t ps
    using ne by (simp add: spread_keys delete_keys)
  then show "\<exists>msg. posted (snd (fetchWithTimeout url (Some a) (Some wk) timeout out st))
                   = posted st @ [(wk, msg)]
                 \<and> js ''signal'' \<notin> fst ` set msg"
    by (simp add: fetchWithTimeout_def switchFetch_def Let_def props_def update_conv'
        split: option.splits)
  show "map_of (heap (snd (fetchWithTimeout url (Some a) (Some wk) timeout out st)))
             (Suc (next_addr st))
           = Some (AList.delete (js ''signal'') (props st (Some a)))"
    by (simp add: fetchWithTimeout_def switchFetch_def Let_def props_def update_conv'
        delete_update_same split: option.splits)
  show "map_of (heap (snd (fetchWithTimeout url (Some a) None timeout out st)))
             (Suc (next_addr st))
           = Some (AList.update (js ''signal'') (Ref (next_addr st)) (props st (Some a)))"
    by (simp add: fetchWithTimeout_def switchFetch_def Let_def props_def update_conv'
        split: option.splits)
  show "map_of (heap (snd (getJSON url timeout (Some a) worker env st))) a = map_of (heap st) a"
    by (rule getJSON_heap [OF assms])
qed


theorem fetchWithTimeout_keeps_options_witness:
  "map_of (heap (snd (fetchWithTimeout (js ''https://idp.example/oauth/token'') (Some 0) (Some 4)
                        None Late net_with_options))) 0
     = Some [(js ''method'', Str (js ''POST'')), (js ''signal'', Ref 9)]
   \<and> map_of (heap (snd (fetchWithTimeout (js ''https://idp.example/oauth/token'') (Some 0) (Some 4)
                        None Late net_with_options))) (Suc 1)
     = Some [(js ''method'', Str (js ''POST''))]"
proof -
  have a: "0 < next_addr net_with_options" by (simp add: net_with_options_def)
  have h: "map_of (heap net_with_options) 0
           = Some [(js ''method'', Str (js ''POST'')), (js ''signal'', Ref 9)]"
    by (simp add: net_with_options_def)
  have n: "next_addr net_with_options = 1" by (simp add: net_with_options_def)
  have d: "AList.delete (js ''signal'') (props net_with_options (Some 0))
           = [(js ''method'', Str (js ''POST''))]"
    by (simp add: props_def h js_def)
  from fetchWithTimeout_keeps_options [OF a, of "js ''https://idp.example/oauth/token''"
      "Some 4" None Late _ 4]
  have "map_of (heap (snd (fetchWithTimeout (js ''https://idp.example/oauth/token'') (Some 0)
                        (Some 4) None Late net_with_options))) 0
          = map_of (heap net_with_options) 0"
    and "map_of (heap (snd (fetchWithTimeout (js ''https://idp.example/oauth/token'') (Some 0)
                        (Some 4) None Late net_with_options))) (Suc (next_addr net_with_options))
          = Some (AList.delete (js ''signal'') (props net_with_options (Some 0)))"
    by blast+
  then show ?thesis by (simp only: h n d)
qed

end
